theory Spec2Isabelle
  imports Main "HOL-Library.Word"
begin

section \<open>Transaction model (foundation/blockchain/database/transaction.go)\<close>

text \<open>
  \<^verbatim>\<open>AccountID\<close> is a string type of the database package. The numeric fields are
  Go's \<^verbatim>\<open>uint16\<close> and \<^verbatim>\<open>uint64\<close>; \<^verbatim>\<open>*big.Int\<close> is a pointer to an unbounded
  integer, \<open>None\<close> for \<^verbatim>\<open>nil\<close>.
\<close>

type_synonym AccountID = string

record Tx =
  ChainID :: "16 word"
  Nonce :: "64 word"
  FromID :: AccountID
  ToID :: AccountID
  Value :: "64 word"
  Tip :: "64 word"
  Data :: "8 word list"

record SignedTx = Tx +
  V :: "int option"
  R :: "int option"
  S :: "int option"

text \<open>
  Modelled from the spec: the declaration of \<^verbatim>\<open>database.BlockTx\<close> is not among the
  sources. The spec describes it as a SignedTx enriched with block-production
  metadata, so it is a \<open>SignedTx\<close> extended by fields of an unknown type \<open>'m\<close>.
\<close>

type_synonym 'm BlockTx = "'m SignedTx_scheme"

text \<open>
  Modelled from the spec: the declaration of \<^verbatim>\<open>database.BlockData\<close> is not among the
  sources. The spec describes it as a header (at minimum a block number) plus an
  ordered sequence of BlockTx; the store reads \<^verbatim>\<open>blockData.Header.Number\<close>, a
  \<^verbatim>\<open>uint64\<close>. Further header fields are of an unknown type \<open>'h\<close>.
\<close>

record BlockHeader =
  Number :: "64 word"

record ('h, 'm) BlockData =
  Header :: "'h BlockHeader_scheme"
  Trans :: "'m BlockTx list"


text \<open>
  The collaborators of the transaction model are declared outside the sources:
  \<^verbatim>\<open>AccountID.IsAccountID\<close> and, of the signature package, \<^verbatim>\<open>Sign\<close>,
  \<^verbatim>\<open>VerifySignature\<close> and \<^verbatim>\<open>FromAddress\<close>. They are parameters, with the result types
  their call sites show: an error or a result. Their errors are messages.
\<close>

record 'k externals =
  IsAccountID :: "AccountID \<Rightarrow> bool"
  sig_Sign :: "Tx \<Rightarrow> 'k \<Rightarrow> string + int option \<times> int option \<times> int option"
  sig_VerifySignature :: "int option \<Rightarrow> int option \<Rightarrow> int option \<Rightarrow> string option"
  sig_FromAddress :: "Tx \<Rightarrow> int option \<Rightarrow> int option \<Rightarrow> int option \<Rightarrow> string + string"

text \<open>
  The errors of the transaction model, one constructor for each place that makes one:
  the two \<^verbatim>\<open>errors.New\<close> for the accounts, the \<^verbatim>\<open>fmt.Errorf\<close> for the chain id and for
  a payment to oneself, the \<^verbatim>\<open>errors.New\<close> for the signer's address, and the errors
  passed on from \<^verbatim>\<open>signature.Sign\<close>, \<^verbatim>\<open>signature.VerifySignature\<close> and
  \<^verbatim>\<open>signature.FromAddress\<close>.
\<close>

datatype tx_error =
    FromNotFormatted
  | ToNotFormatted
  | InvalidChainID "16 word" "16 word"
  | SendToSelf AccountID AccountID
  | AddressMismatch
  | SignError string
  | VerifyError string
  | RecoverError string

definition NewTx ::
  "'k externals \<Rightarrow> 16 word \<Rightarrow> 64 word \<Rightarrow> AccountID \<Rightarrow> AccountID \<Rightarrow> 64 word \<Rightarrow> 64 word \<Rightarrow>
     8 word list \<Rightarrow> tx_error + Tx" where
  "NewTx x chainID nonce fromID toID val tip dat =
     (if \<not> IsAccountID x fromID then Inl FromNotFormatted
      else if \<not> IsAccountID x toID then Inl ToNotFormatted
      else Inr \<lparr>ChainID = chainID, Nonce = nonce, FromID = fromID, ToID = toID,
                Value = val, Tip = tip, Data = dat\<rparr>)"

definition Sign :: "'k externals \<Rightarrow> Tx \<Rightarrow> 'k \<Rightarrow> tx_error + SignedTx" where
  "Sign x tx privateKey =
     (case sig_Sign x tx privateKey of
        Inl err \<Rightarrow> Inl (SignError err)
      | Inr (v, r, s) \<Rightarrow> Inr (Tx.extend tx (SignedTx.fields v r s)))"

text \<open>\<^verbatim>\<open>Validate\<close>: the error it returns, \<open>None\<close> for \<^verbatim>\<open>nil\<close>.\<close>

definition Validate :: "'k externals \<Rightarrow> SignedTx \<Rightarrow> 16 word \<Rightarrow> tx_error option" where
  "Validate x tx chainID =
     (if ChainID tx \<noteq> chainID then Some (InvalidChainID (ChainID tx) chainID)
      else if \<not> IsAccountID x (FromID tx) then Some FromNotFormatted
      else if \<not> IsAccountID x (ToID tx) then Some ToNotFormatted
      else if FromID tx = ToID tx then Some (SendToSelf (FromID tx) (ToID tx))
      else
        (case sig_VerifySignature x (V tx) (R tx) (S tx) of
           Some err \<Rightarrow> Some (VerifyError err)
         | None \<Rightarrow>
             (case sig_FromAddress x (Tx.truncate tx) (V tx) (R tx) (S tx) of
                Inl err \<Rightarrow> Some (RecoverError err)
              | Inr address \<Rightarrow>
                  if address \<noteq> FromID tx then Some AddressMismatch else None)))"

subsection \<open>The validation rules as a list of checks\<close>

text \<open>The first check of a list that fails, each check giving its error or \<open>None\<close>.\<close>

fun first_failure :: "'e option list \<Rightarrow> 'e option" where
  "first_failure [] = None"
| "first_failure (None # cs) = first_failure cs"
| "first_failure (Some e # cs) = Some e"

text \<open>
  The six checks in the words of the specification: chain id, sender well-formed,
  receiver well-formed, no payment to oneself, signature structurally valid, and the
  recovered signer equal to the sender, else a signer mismatch.
\<close>

definition six_checks :: "'k externals \<Rightarrow> SignedTx \<Rightarrow> 16 word \<Rightarrow> tx_error option list" where
  "six_checks x tx chainID =
     [if ChainID tx = chainID then None else Some (InvalidChainID (ChainID tx) chainID),
      if IsAccountID x (FromID tx) then None else Some FromNotFormatted,
      if IsAccountID x (ToID tx) then None else Some ToNotFormatted,
      if FromID tx \<noteq> ToID tx then None else Some (SendToSelf (FromID tx) (ToID tx)),
      map_option VerifyError (sig_VerifySignature x (V tx) (R tx) (S tx)),
      if sig_FromAddress x (Tx.truncate tx) (V tx) (R tx) (S tx) = Inr (FromID tx)
      then None else Some AddressMismatch]"

text \<open>The same list, the sixth check telling a failed recovery from a recovered stranger.\<close>

definition checks :: "'k externals \<Rightarrow> SignedTx \<Rightarrow> 16 word \<Rightarrow> tx_error option list" where
  "checks x tx chainID =
     [if ChainID tx = chainID then None else Some (InvalidChainID (ChainID tx) chainID),
      if IsAccountID x (FromID tx) then None else Some FromNotFormatted,
      if IsAccountID x (ToID tx) then None else Some ToNotFormatted,
      if FromID tx \<noteq> ToID tx then None else Some (SendToSelf (FromID tx) (ToID tx)),
      map_option VerifyError (sig_VerifySignature x (V tx) (R tx) (S tx)),
      case sig_FromAddress x (Tx.truncate tx) (V tx) (R tx) (S tx) of
        Inl err \<Rightarrow> Some (RecoverError err)
      | Inr address \<Rightarrow> if address = FromID tx then None else Some AddressMismatch]"

subsection \<open>Collaborators to run the transaction model on\<close>

text \<open>
  An instance of the collaborators for concrete runs: an account is well-formed when
  it starts with \<^verbatim>\<open>0x\<close> and goes on; signing always gives the triple (29, 1, 1); a
  signature is valid when its recovery identifier is 29 or 30; recovery fails on a zero
  first coordinate and gives the sender otherwise.
\<close>

definition plain_externals :: "unit externals" where
  "plain_externals =
     \<lparr>IsAccountID = (\<lambda>a. take 2 a = ''0x'' \<and> 2 < length a),
      sig_Sign = (\<lambda>tx k. Inr (Some 29, Some 1, Some 1)),
      sig_VerifySignature =
        (\<lambda>v r s. if v = Some 29 \<or> v = Some 30 then None else Some ''invalid recovery id''),
      sig_FromAddress =
        (\<lambda>tx v r s. if r = Some 0 then Inl ''recovery failed'' else Inr (FromID tx))\<rparr>"

definition transfer :: "16 word \<Rightarrow> AccountID \<Rightarrow> AccountID \<Rightarrow> 64 word \<Rightarrow> 64 word \<Rightarrow> Tx" where
  "transfer c a b n t =
     \<lparr>ChainID = c, Nonce = n, FromID = a, ToID = b, Value = 10, Tip = t, Data = []\<rparr>"

definition signed :: "Tx \<Rightarrow> int \<Rightarrow> int \<Rightarrow> int \<Rightarrow> SignedTx" where
  "signed tx v r s = Tx.extend tx (SignedTx.fields (Some v) (Some r) (Some s))"


section \<open>Selection framework (foundation/blockchain/mempool/selector/selector.go)\<close>

definition StrategyTip :: string where
  "StrategyTip = ''tip''"

definition StrategyTipAdvanced :: string where
  "StrategyTipAdvanced = ''tip_advanced''"

text \<open>
  The registry. \<^verbatim>\<open>tipSelect\<close> is a function of the package whose body is outside the
  sources: it is a parameter, a value of the type \<open>'f\<close> of selection functions.
\<close>

definition strategies :: "'f \<Rightarrow> (string \<rightharpoonup> 'f)" where
  "strategies tipSelect = [StrategyTip \<mapsto> tipSelect]"

text \<open>
  \<^verbatim>\<open>strings.ToLower\<close>: a string of ASCII bytes has its letters \<^verbatim>\<open>A\<close> to \<^verbatim>\<open>Z\<close> lowered;
  any other string goes through \<^verbatim>\<open>Map(unicode.ToLower, s)\<close>, the parameter \<open>U\<close> (the
  Unicode tables are the library's).
\<close>

definition lowerASCII :: "char \<Rightarrow> char" where
  "lowerASCII c =
     (let n = (of_char c :: nat) in if 65 \<le> n \<and> n \<le> 90 then char_of (n + 32) else c)"

definition strings_ToLower :: "(string \<Rightarrow> string) \<Rightarrow> string \<Rightarrow> string" where
  "strings_ToLower U s =
     (if list_all (\<lambda>c. (of_char c :: nat) < 128) s then map lowerASCII s else U s)"

datatype selector_error = StrategyNotExist string

definition Retrieve :: "(string \<Rightarrow> string) \<Rightarrow> 'f \<Rightarrow> string \<Rightarrow> selector_error + 'f" where
  "Retrieve U tipSelect strategy =
     (case strategies tipSelect (strings_ToLower U strategy) of
        None \<Rightarrow> Inl (StrategyNotExist strategy)
      | Some fn \<Rightarrow> Inr fn)"

subsection \<open>The sort interfaces byNonce and byTip\<close>

text \<open>A panic of the Go runtime: an index out of range, or \<^verbatim>\<open>panic(msg)\<close>.\<close>

datatype panic = IndexOutOfRange int nat | Panic string

definition index :: "'a list \<Rightarrow> int \<Rightarrow> panic + 'a" where
  "index b i =
     (if 0 \<le> i \<and> i < int (length b) then Inr (b ! nat i)
      else Inl (IndexOutOfRange i (length b)))"

definition byNonce_Len :: "'m BlockTx list \<Rightarrow> int" where
  "byNonce_Len b = int (length b)"

definition byNonce_Less :: "'m BlockTx list \<Rightarrow> int \<Rightarrow> int \<Rightarrow> panic + bool" where
  "byNonce_Less b i j =
     (case index b i of
        Inl p \<Rightarrow> Inl p
      | Inr bi \<Rightarrow> (case index b j of Inl p \<Rightarrow> Inl p | Inr bj \<Rightarrow> Inr (Nonce bi < Nonce bj)))"

definition byNonce_Swap :: "'m BlockTx list \<Rightarrow> int \<Rightarrow> int \<Rightarrow> panic + 'm BlockTx list" where
  "byNonce_Swap b i j =
     (case index b j of
        Inl p \<Rightarrow> Inl p
      | Inr bj \<Rightarrow>
          (case index b i of
             Inl p \<Rightarrow> Inl p
           | Inr bi \<Rightarrow> Inr (b[nat i := bj, nat j := bi])))"

definition byTip_Len :: "'m BlockTx list \<Rightarrow> int" where
  "byTip_Len b = int (length b)"

definition byTip_Less :: "'m BlockTx list \<Rightarrow> int \<Rightarrow> int \<Rightarrow> panic + bool" where
  "byTip_Less b i j =
     (case index b i of
        Inl p \<Rightarrow> Inl p
      | Inr bi \<Rightarrow> (case index b j of Inl p \<Rightarrow> Inl p | Inr bj \<Rightarrow> Inr (Tip bi > Tip bj)))"

definition byTip_Swap :: "'m BlockTx list \<Rightarrow> int \<Rightarrow> int \<Rightarrow> panic + 'm BlockTx list" where
  "byTip_Swap b i j = Inl (Panic ''implement me'')"

text \<open>
  A sorting algorithm sees its data through \<^verbatim>\<open>sort.Interface\<close> only: it is a tree of
  calls of \<^verbatim>\<open>Len\<close>, \<^verbatim>\<open>Less\<close> and \<^verbatim>\<open>Swap\<close>, each going on from the answer it gets.
  \<open>run_byTip\<close> runs such an algorithm on a \<^verbatim>\<open>byTip\<close> value: a panic, or the algorithm's
  result and the slice it leaves. \<open>calls_Swap\<close> tells whether the run comes to a call
  of \<^verbatim>\<open>Swap\<close>.
\<close>

datatype 'a sort_prog =
    Return 'a
  | CallLen "int \<Rightarrow> 'a sort_prog"
  | CallLess int int "bool \<Rightarrow> 'a sort_prog"
  | CallSwap int int "'a sort_prog"

primrec run_byTip :: "'a sort_prog \<Rightarrow> 'm BlockTx list \<Rightarrow> panic + 'a \<times> 'm BlockTx list" where
  "run_byTip (Return a) b = Inr (a, b)"
| "run_byTip (CallLen k) b = run_byTip (k (byTip_Len b)) b"
| "run_byTip (CallLess i j k) b =
     (case byTip_Less b i j of Inl p \<Rightarrow> Inl p | Inr lt \<Rightarrow> run_byTip (k lt) b)"
| "run_byTip (CallSwap i j k) b =
     (case byTip_Swap b i j of Inl p \<Rightarrow> Inl p | Inr b' \<Rightarrow> run_byTip k b')"

primrec calls_Swap :: "'a sort_prog \<Rightarrow> 'm BlockTx list \<Rightarrow> bool" where
  "calls_Swap (Return a) b = False"
| "calls_Swap (CallLen k) b = calls_Swap (k (byTip_Len b)) b"
| "calls_Swap (CallLess i j k) b =
     (case byTip_Less b i j of Inl p \<Rightarrow> False | Inr lt \<Rightarrow> calls_Swap (k lt) b)"
| "calls_Swap (CallSwap i j k) b = True"

text \<open>
  The insertion sort of package sort, \<^verbatim>\<open>for i := 1; i < n; i++ { for j := i; j > 0 &&
  data.Less(j, j-1); j-- { data.Swap(j, j-1) } }\<close>, on at most two elements.
\<close>

definition insertion_sort2 :: "unit sort_prog" where
  "insertion_sort2 =
     CallLen (\<lambda>n. if n < 2 then Return ()
                   else CallLess 1 0 (\<lambda>lt. if lt then CallSwap 1 0 (Return ()) else Return ()))"


text \<open>Two transactions of different senders, the second with the higher tip.\<close>

definition two_tips :: "SignedTx list" where
  "two_tips = [signed (transfer 1 ''0xA'' ''0xB'' 1 1) 29 1 1,
               signed (transfer 1 ''0xC'' ''0xB'' 1 5) 29 1 1]"


section \<open>Block store (foundation/blockchain/storage/disk/disk.go)\<close>

subsection \<open>The file system and the JSON codec the store runs on\<close>

text \<open>
  A file system state: the regular files by path with their contents, the paths on
  which \<^verbatim>\<open>open(2)\<close> fails for a reason of its own (permissions, a missing parent
  directory, ...), and the paths on which a write stops early (after how many bytes,
  and with which error).
\<close>

datatype errno = ENOENT | EACCES | ENOSPC | EIO

record filesys =
  files :: "string \<rightharpoonup> string"
  open_fault :: "string \<rightharpoonup> errno"
  write_fault :: "string \<rightharpoonup> nat \<times> errno"

text \<open>
  The errors the store returns: an \<^verbatim>\<open>*fs.PathError\<close> (operation, path, cause), an
  error of the JSON decoder, and \<^verbatim>\<open>errors.New("end of chain")\<close>.
\<close>

datatype disk_error =
    PathError string string errno
  | DecodeError string
  | EndOfChain

text \<open>
  \<^verbatim>\<open>encoding/json\<close> and the declaration of BlockData are outside the sources, so the
  two calls the store makes are parameters: \<^verbatim>\<open>json.MarshalIndent(blockData, "", "  ")\<close>
  returns the bytes or an error, and \<^verbatim>\<open>json.NewDecoder(f).Decode(&blockData)\<close> reads
  one value from the start of the file's contents.
\<close>

record ('h, 'm) codec =
  marshalIndent :: "('h, 'm) BlockData \<Rightarrow> string + string"
  decodeStream :: "string \<Rightarrow> string + ('h, 'm) BlockData"

text \<open>
  \<^verbatim>\<open>os.OpenFile(p, os.O_CREATE|os.O_RDWR, 0600)\<close>: an existing file is opened as it is
  (the flags hold no \<^verbatim>\<open>O_TRUNC\<close>), a missing one is created empty.
\<close>

definition os_OpenFile_create :: "filesys \<Rightarrow> string \<Rightarrow> disk_error + filesys" where
  "os_OpenFile_create fs p =
     (case open_fault fs p of
        Some e \<Rightarrow> Inl (PathError ''open'' p e)
      | None \<Rightarrow>
          (case files fs p of
             None \<Rightarrow> Inr (fs\<lparr>files := (files fs)(p \<mapsto> [])\<rparr>)
           | Some c \<Rightarrow> Inr fs))"

text \<open>\<^verbatim>\<open>os.OpenFile(p, os.O_RDONLY, 0600)\<close>: the contents of the file, read from its start.\<close>

definition os_OpenFile_rdonly :: "filesys \<Rightarrow> string \<Rightarrow> disk_error + string" where
  "os_OpenFile_rdonly fs p =
     (case open_fault fs p of
        Some e \<Rightarrow> Inl (PathError ''open'' p e)
      | None \<Rightarrow>
          (case files fs p of
             None \<Rightarrow> Inl (PathError ''open'' p ENOENT)
           | Some c \<Rightarrow> Inr c))"

text \<open>
  \<^verbatim>\<open>f.Write(data)\<close> on a file just opened: the bytes go to offset 0 and replace what
  was there; bytes of the old contents beyond them stay.
\<close>

definition overwrite :: "string \<Rightarrow> string \<Rightarrow> string" where
  "overwrite w old = w @ drop (length w) old"

definition File_Write :: "filesys \<Rightarrow> string \<Rightarrow> string \<Rightarrow> disk_error option \<times> filesys" where
  "File_Write fs p data =
     (let old = (case files fs p of None \<Rightarrow> [] | Some c \<Rightarrow> c) in
      case write_fault fs p of
        None \<Rightarrow> (None, fs\<lparr>files := (files fs)(p \<mapsto> overwrite data old)\<rparr>)
      | Some (n, e) \<Rightarrow>
          if n < length data
          then (Some (PathError ''write'' p e),
                fs\<lparr>files := (files fs)(p \<mapsto> overwrite (take n data) old)\<rparr>)
          else (None, fs\<lparr>files := (files fs)(p \<mapsto> overwrite data old)\<rparr>))"

text \<open>\<^verbatim>\<open>errors.Is(err, fs.ErrNotExist)\<close> on the result of a call.\<close>

fun isNotExist :: "disk_error + 'a \<Rightarrow> bool" where
  "isNotExist (Inl (PathError opn p ENOENT)) = True"
| "isNotExist r = False"

subsection \<open>Disk\<close>

record Disk =
  dbPath :: string

text \<open>\<^verbatim>\<open>strconv.FormatUint(blockNum, 10)\<close>.\<close>

fun FormatUint_nat :: "nat \<Rightarrow> string" where
  "FormatUint_nat n =
     (if n < 10 then [''0123456789'' ! n]
      else FormatUint_nat (n div 10) @ [''0123456789'' ! (n mod 10)])"

declare FormatUint_nat.simps [simp del]

definition FormatUint :: "64 word \<Rightarrow> string" where
  "FormatUint w = FormatUint_nat (unat w)"

text \<open>
  \<^verbatim>\<open>path.Clean\<close>: the shortest path that names the same file by the text alone. The
  path is cut at its slashes; an empty element and a \<^verbatim>\<open>.\<close> element go; a \<^verbatim>\<open>..\<close> element
  takes away the element before it, is dropped at the start of a rooted path, and stays
  at the start of any other; the empty result is \<^verbatim>\<open>.\<close>. The elements kept are held
  last first.
\<close>

fun split_on :: "char \<Rightarrow> string \<Rightarrow> string list" where
  "split_on c [] = [[]]"
| "split_on c (x # xs) =
     (if x = c then [] # split_on c xs
      else (case split_on c xs of [] \<Rightarrow> [[x]] | e # es \<Rightarrow> (x # e) # es))"

definition clean_step :: "bool \<Rightarrow> string list \<Rightarrow> string \<Rightarrow> string list" where
  "clean_step rooted kept e =
     (if e = [] \<or> e = ''.'' then kept
      else if e = ''..'' then
        (if kept \<noteq> [] \<and> hd kept \<noteq> ''..'' then tl kept
         else if rooted then kept
         else e # kept)
      else e # kept)"

fun join_slash :: "string list \<Rightarrow> string" where
  "join_slash [] = []"
| "join_slash [e] = e"
| "join_slash (e # es) = e @ ''/'' @ join_slash es"

definition path_Clean :: "string \<Rightarrow> string" where
  "path_Clean p =
     (case p of
        [] \<Rightarrow> ''.''
      | c # cs \<Rightarrow>
          let rooted = (c = CHR ''/'');
              kept = foldl (clean_step rooted) [] (split_on (CHR ''/'') p);
              out = (if rooted then ''/'' else []) @ join_slash (rev kept)
          in if out = [] then ''.'' else out)"

text \<open>
  \<^verbatim>\<open>path.Join\<close> of a directory and a file name: the empty string when both are empty,
  else the clean form of the two joined by a slash, an empty directory left out.
\<close>

definition path_Join :: "string \<Rightarrow> string \<Rightarrow> string" where
  "path_Join dir name =
     (if dir = [] \<and> name = [] then []
      else path_Clean (if dir = [] then name else dir @ ''/'' @ name))"

definition getPath :: "Disk \<Rightarrow> 64 word \<Rightarrow> string" where
  "getPath d blockNum = path_Join (dbPath d) (FormatUint blockNum @ ''.json'')"

text \<open>
  \<^verbatim>\<open>Write\<close>: the error it returns (\<open>None\<close> for \<^verbatim>\<open>nil\<close>) and the file system it leaves.
  When marshalling fails the source executes \<^verbatim>\<open>return nil\<close>.
\<close>

definition Write ::
  "('h, 'm) codec \<Rightarrow> Disk \<Rightarrow> ('h, 'm) BlockData \<Rightarrow> filesys \<Rightarrow> disk_error option \<times> filesys" where
  "Write cd d blockData fs =
     (case marshalIndent cd blockData of
        Inl err \<Rightarrow> (None, fs)
      | Inr data \<Rightarrow>
          (case os_OpenFile_create fs (getPath d (Number (Header blockData))) of
             Inl err \<Rightarrow> (Some err, fs)
           | Inr fs1 \<Rightarrow> File_Write fs1 (getPath d (Number (Header blockData))) data))"

definition GetBlock ::
  "('h, 'm) codec \<Rightarrow> Disk \<Rightarrow> 64 word \<Rightarrow> filesys \<Rightarrow> disk_error + ('h, 'm) BlockData" where
  "GetBlock cd d num fs =
     (case os_OpenFile_rdonly fs (getPath d num) of
        Inl err \<Rightarrow> Inl err
      | Inr stream \<Rightarrow>
          (case decodeStream cd stream of
             Inl msg \<Rightarrow> Inl (DecodeError msg)
           | Inr blockData \<Rightarrow> Inr blockData))"

subsection \<open>diskIterator\<close>

record diskIterator =
  storage :: Disk
  currentBlockNumber :: "64 word"
  endOfChain :: bool

definition ForEach :: "Disk \<Rightarrow> diskIterator" where
  "ForEach d = \<lparr>storage = d, currentBlockNumber = 0, endOfChain = False\<rparr>"

text \<open>\<^verbatim>\<open>Next\<close>: what the call returns, and the iterator after it.\<close>

definition Next ::
  "('h, 'm) codec \<Rightarrow> filesys \<Rightarrow> diskIterator \<Rightarrow>
     (disk_error + ('h, 'm) BlockData) \<times> diskIterator" where
  "Next cd fs di =
     (if endOfChain di then (Inl EndOfChain, di)
      else
        let di1 = di\<lparr>currentBlockNumber := currentBlockNumber di + 1\<rparr>;
            r = GetBlock cd (storage di1) (currentBlockNumber di1) fs
        in (r, if isNotExist r then di1\<lparr>endOfChain := True\<rparr> else di1))"

definition Done :: "diskIterator \<Rightarrow> bool" where
  "Done di = endOfChain di"

text \<open>\<open>n\<close> successive calls of \<^verbatim>\<open>Next\<close>: their results in order, and the iterator after them.\<close>

fun Nexts ::
  "('h, 'm) codec \<Rightarrow> filesys \<Rightarrow> nat \<Rightarrow> diskIterator \<Rightarrow>
     (disk_error + ('h, 'm) BlockData) list \<times> diskIterator" where
  "Nexts cd fs 0 di = ([], di)"
| "Nexts cd fs (Suc n) di =
     (case Next cd fs di of
        (r, di1) \<Rightarrow> (case Nexts cd fs n di1 of (rs, di2) \<Rightarrow> (r # rs, di2)))"

text \<open>
  The store holds the blocks \<open>bs\<close> as the records \<open>n\<close>, \<open>n + 1\<close>, ... and no record after
  them: each record is a readable file that decodes to its block, whose header carries
  the record's number.
\<close>

fun stored_from ::
  "('h, 'm) codec \<Rightarrow> Disk \<Rightarrow> filesys \<Rightarrow> 64 word \<Rightarrow> ('h, 'm) BlockData list \<Rightarrow> bool" where
  "stored_from cd d fs n [] =
     (files fs (getPath d n) = None \<and> open_fault fs (getPath d n) = None)"
| "stored_from cd d fs n (b # bs) =
     ((case files fs (getPath d n) of
         None \<Rightarrow> False
       | Some c \<Rightarrow> decodeStream cd c = Inr b)
      \<and> open_fault fs (getPath d n) = None
      \<and> Number (Header b) = n
      \<and> stored_from cd d fs (n + 1) bs)"

subsection \<open>A codec to run the store on\<close>

text \<open>
  An instance of the codec parameter for concrete runs. A block without transactions
  is written as \<^verbatim>\<open>{number:text}\<close>, where the text is the rest of the header, and a
  block with transactions as \<^verbatim>\<open>{number:text|transactions}\<close>; a block whose text holds a
  closing brace or a bar cannot be marshalled. The transactions are written as their
  count and then each one field after field: a number in decimal and closed by a
  semicolon, a string or a byte list behind its length, a big integer behind its sign
  (\<^verbatim>\<open>n\<close> for \<^verbatim>\<open>nil\<close>). The decoder reads one block from the start of its input and leaves
  what follows unread, as \<^verbatim>\<open>Decoder.Decode\<close> does.
\<close>

definition is_digit :: "char \<Rightarrow> bool" where
  "is_digit c = (c \<in> set ''0123456789'')"

fun parse_dec :: "string \<Rightarrow> nat \<Rightarrow> nat" where
  "parse_dec [] acc = acc"
| "parse_dec (c # cs) acc = parse_dec cs (10 * acc + (of_char c - 48))"

definition put_nat :: "nat \<Rightarrow> string" where
  "put_nat n = FormatUint_nat n @ '';''"

definition get_nat :: "string \<Rightarrow> (nat \<times> string) option" where
  "get_nat s =
     (if takeWhile is_digit s = [] then None
      else
        (case dropWhile is_digit s of
           [] \<Rightarrow> None
         | c # r \<Rightarrow>
             if c = CHR '';'' then Some (parse_dec (takeWhile is_digit s) 0, r) else None))"

definition put_word :: "'a::len word \<Rightarrow> string" where
  "put_word w = put_nat (unat w)"

definition get_word :: "string \<Rightarrow> ('a::len word \<times> string) option" where
  "get_word s =
     (case get_nat s of
        None \<Rightarrow> None
      | Some (n, r) \<Rightarrow> if n < 2 ^ LENGTH('a) then Some (of_nat n, r) else None)"

definition put_str :: "string \<Rightarrow> string" where
  "put_str s = put_nat (length s) @ s"

definition get_str :: "string \<Rightarrow> (string \<times> string) option" where
  "get_str s =
     (case get_nat s of
        None \<Rightarrow> None
      | Some (n, r) \<Rightarrow> if length r < n then None else Some (take n r, drop n r))"

definition put_list :: "('a \<Rightarrow> string) \<Rightarrow> 'a list \<Rightarrow> string" where
  "put_list put xs = put_nat (length xs) @ concat (map put xs)"

primrec get_items :: "(string \<Rightarrow> ('a \<times> string) option) \<Rightarrow> nat \<Rightarrow> string \<Rightarrow> ('a list \<times> string) option" where
  "get_items get 0 s = Some ([], s)"
| "get_items get (Suc n) s =
     (case get s of
        None \<Rightarrow> None
      | Some (x, r) \<Rightarrow>
          (case get_items get n r of
             None \<Rightarrow> None
           | Some (xs, r') \<Rightarrow> Some (x # xs, r')))"

definition get_list :: "(string \<Rightarrow> ('a \<times> string) option) \<Rightarrow> string \<Rightarrow> ('a list \<times> string) option" where
  "get_list get s =
     (case get_nat s of
        None \<Rightarrow> None
      | Some (n, r) \<Rightarrow> get_items get n r)"

definition put_int :: "int option \<Rightarrow> string" where
  "put_int v =
     (case v of
        None \<Rightarrow> ''n''
      | Some i \<Rightarrow> (if i < 0 then ''-'' else ''+'') @ put_nat (nat \<bar>i\<bar>))"

definition get_int :: "string \<Rightarrow> (int option \<times> string) option" where
  "get_int s =
     (case s of
        [] \<Rightarrow> None
      | c # r \<Rightarrow>
          if c = CHR ''n'' then Some (None, r)
          else if c = CHR ''+'' then
            (case get_nat r of None \<Rightarrow> None | Some (n, r') \<Rightarrow> Some (Some (int n), r'))
          else if c = CHR ''-'' then
            (case get_nat r of None \<Rightarrow> None | Some (n, r') \<Rightarrow> Some (Some (- int n), r'))
          else None)"

definition put_tx :: "SignedTx \<Rightarrow> string" where
  "put_tx t =
     put_word (ChainID t) @ put_word (Nonce t) @ put_str (FromID t) @ put_str (ToID t)
       @ put_word (Value t) @ put_word (Tip t) @ put_list put_word (Data t)
       @ put_int (V t) @ put_int (R t) @ put_int (S t)"

definition get_tx :: "string \<Rightarrow> (SignedTx \<times> string) option" where
  "get_tx s0 =
     Option.bind (get_word s0) (\<lambda>(c, s1).
     Option.bind (get_word s1) (\<lambda>(n, s2).
     Option.bind (get_str s2) (\<lambda>(a, s3).
     Option.bind (get_str s3) (\<lambda>(b, s4).
     Option.bind (get_word s4) (\<lambda>(val, s5).
     Option.bind (get_word s5) (\<lambda>(tip, s6).
     Option.bind (get_list get_word s6) (\<lambda>(dat, s7).
     Option.bind (get_int s7) (\<lambda>(v, s8).
     Option.bind (get_int s8) (\<lambda>(r, s9).
     Option.bind (get_int s9) (\<lambda>(s, s10).
       Some (\<lparr>ChainID = c, Nonce = n, FromID = a, ToID = b, Value = val, Tip = tip,
               Data = dat, V = v, R = r, S = s\<rparr>, s10)))))))))))"

definition in_text :: "char \<Rightarrow> bool" where
  "in_text c = (c \<noteq> CHR ''}'' \<and> c \<noteq> CHR ''|'')"

definition brace_marshal :: "(string, unit) BlockData \<Rightarrow> string + string" where
  "brace_marshal b =
     (if CHR ''}'' \<in> set (BlockHeader.more (Header b))
         \<or> CHR ''|'' \<in> set (BlockHeader.more (Header b))
      then Inl ''unsupported value''
      else Inr (''{'' @ FormatUint (Number (Header b)) @ '':''
                  @ BlockHeader.more (Header b)
                  @ (if Trans b = [] then [] else ''|'' @ put_list put_tx (Trans b))
                  @ ''}''))"

definition brace_decode :: "string \<Rightarrow> string + (string, unit) BlockData" where
  "brace_decode s =
     (case s of
        [] \<Rightarrow> Inl ''EOF''
      | c # r \<Rightarrow>
          if c \<noteq> CHR ''{'' then Inl ''invalid character''
          else
            let ds = takeWhile is_digit r; r1 = dropWhile is_digit r in
            if ds = [] \<or> 2 ^ 64 \<le> parse_dec ds 0 then Inl ''invalid number''
            else
              (case r1 of
                 [] \<Rightarrow> Inl ''unexpected EOF''
               | c1 # r2 \<Rightarrow>
                   if c1 \<noteq> CHR '':'' then Inl ''invalid character''
                   else
                     (case dropWhile in_text r2 of
                        [] \<Rightarrow> Inl ''unexpected EOF''
                      | c2 # r3 \<Rightarrow>
                          if c2 = CHR ''}''
                          then Inr \<lparr>Header = \<lparr>Number = of_nat (parse_dec ds 0),
                                               \<dots> = takeWhile in_text r2\<rparr>,
                                    Trans = []\<rparr>
                          else
                            (case get_list get_tx r3 of
                               None \<Rightarrow> Inl ''invalid transaction''
                             | Some (txs, r4) \<Rightarrow>
                                 (case r4 of
                                    [] \<Rightarrow> Inl ''unexpected EOF''
                                  | c3 # r5 \<Rightarrow>
                                      if c3 \<noteq> CHR ''}'' then Inl ''invalid character''
                                      else Inr \<lparr>Header = \<lparr>Number = of_nat (parse_dec ds 0),
                                                           \<dots> = takeWhile in_text r2\<rparr>,
                                                Trans = txs\<rparr>)))))"

definition brace_codec :: "(string, unit) codec" where
  "brace_codec = \<lparr>marshalIndent = brace_marshal, decodeStream = brace_decode\<rparr>"

definition blockN :: "64 word \<Rightarrow> string \<Rightarrow> (string, 'm) BlockData" where
  "blockN n txt = \<lparr>Header = \<lparr>Number = n, \<dots> = txt\<rparr>, Trans = []\<rparr>"

definition zblock :: Disk where
  "zblock = \<lparr>dbPath = ''zblock''\<rparr>"

definition fs_of :: "(string \<times> string) list \<Rightarrow> filesys" where
  "fs_of kvs = \<lparr>files = map_of kvs, open_fault = Map.empty, write_fault = Map.empty\<rparr>"





definition two_blocks :: filesys where
  "two_blocks = fs_of [(''zblock/1.json'', ''{1:a}''), (''zblock/2.json'', ''{2:b}'')]"


section \<open>Properties of the block store\<close>

lemma FormatUint_nat_digit: "n < 10 \<Longrightarrow> FormatUint_nat n = [''0123456789'' ! n]"
  by (simp add: FormatUint_nat.simps)


lemma getPath_zblock_digit:
  "unat n < 10 \<Longrightarrow> getPath zblock n = ''zblock/'' @ [''0123456789'' ! unat n] @ ''.json''"
proof -
  assume "unat n < 10"
  then consider "unat n = 0" | "unat n = 1" | "unat n = 2" | "unat n = 3" | "unat n = 4"
    | "unat n = 5" | "unat n = 6" | "unat n = 7" | "unat n = 8" | "unat n = 9"
    by atomize_elim arith
  then show ?thesis
    by cases
      (simp_all add: getPath_def path_Join_def zblock_def FormatUint_def FormatUint_nat_digit
        path_Clean_def clean_step_def)
qed















lemma Write_marshal_fails:
  "marshalIndent cd b = Inl e \<Longrightarrow> Write cd d b fs = (None, fs)"
  by (simp add: Write_def)

lemma Write_open_fails:
  "marshalIndent cd b = Inr data \<Longrightarrow> open_fault fs (getPath d (Number (Header b))) = Some e \<Longrightarrow>
   Write cd d b fs = (Some (PathError ''open'' (getPath d (Number (Header b))) e), fs)"
  by (simp add: Write_def os_OpenFile_create_def)

lemma Write_write_fails:
  "marshalIndent cd b = Inr data \<Longrightarrow> open_fault fs (getPath d (Number (Header b))) = None \<Longrightarrow>
   write_fault fs (getPath d (Number (Header b))) = Some (n, e) \<Longrightarrow> n < length data \<Longrightarrow>
   fst (Write cd d b fs) = Some (PathError ''write'' (getPath d (Number (Header b))) e)"
  by (simp add: Write_def os_OpenFile_create_def File_Write_def split: option.splits)

lemma Write_contents:
  assumes "marshalIndent cd b = Inr data"
    and "open_fault fs (getPath d (Number (Header b))) = None"
    and "write_fault fs (getPath d (Number (Header b))) = None"
  shows "fst (Write cd d b fs) = None"
    and "files (snd (Write cd d b fs)) (getPath d (Number (Header b))) =
           Some (overwrite data
                  (case files fs (getPath d (Number (Header b))) of None \<Rightarrow> [] | Some c \<Rightarrow> c))"
    and "open_fault (snd (Write cd d b fs)) = open_fault fs"
  using assms
  by (auto simp: Write_def os_OpenFile_create_def File_Write_def Let_def split: option.splits)

text \<open>
  C1 (the code departs from it). The claim: every failure path of \<^verbatim>\<open>Write\<close> returns an
  error; for a block whose serialization fails, \<^verbatim>\<open>Write\<close> returns a serialization
  error and never reports success when the block was not persisted. The code returns
  \<^verbatim>\<open>nil\<close> on that path: here marshalling block 7 fails, \<^verbatim>\<open>Write\<close> reports success on
  an empty store and leaves it empty, and the block cannot be read back. (The other two
  failure paths do return their error: \<open>Write_open_fails\<close>, \<open>Write_write_fails\<close>.)
\<close>

theorem Write_marshal_failure_reports_success:
  "marshalIndent brace_codec (blockN 7 ''a}b'' :: (string, unit) BlockData)
     = Inl ''unsupported value''
   \<and> Write brace_codec zblock (blockN 7 ''a}b'' :: (string, unit) BlockData) (fs_of [])
       = (None, fs_of [])
   \<and> (GetBlock brace_codec zblock 7 (fs_of []) :: disk_error + (string, unit) BlockData)
       = Inl (PathError ''open'' ''zblock/7.json'' ENOENT)"
  by (simp add: brace_codec_def brace_marshal_def blockN_def Write_def GetBlock_def
      os_OpenFile_rdonly_def fs_of_def getPath_zblock_digit)

text \<open>
  C2 (the code departs from it). The claim: writing to a number that already has a
  record replaces it; after \<^verbatim>\<open>Write(b)\<close> the record holds exactly the new encoding of
  \<open>b\<close>, whatever the length of the previous record. The file is opened without
  truncation (\<open>Write_contents\<close>): here record 1 holds the eleven bytes
  \<^verbatim>\<open>{1:genesis}\<close>, the new encoding is the five bytes \<^verbatim>\<open>{1:g}\<close>, and after the write the
  record holds them followed by the last six bytes of the old record.
\<close>

theorem Write_keeps_old_tail:
  "marshalIndent brace_codec (blockN 1 ''g'' :: (string, unit) BlockData) = Inr ''{1:g}''
   \<and> fst (Write brace_codec zblock (blockN 1 ''g'' :: (string, unit) BlockData)
            (fs_of [(''zblock/1.json'', ''{1:genesis}'')])) = None
   \<and> files (snd (Write brace_codec zblock (blockN 1 ''g'' :: (string, unit) BlockData)
             (fs_of [(''zblock/1.json'', ''{1:genesis}'')]))) ''zblock/1.json''
       = Some ''{1:g}nesis}''"
  by (simp add: brace_codec_def brace_marshal_def blockN_def Write_def
      os_OpenFile_create_def File_Write_def overwrite_def fs_of_def getPath_zblock_digit
      FormatUint_def FormatUint_nat_digit)





lemma Next_done: "endOfChain di \<Longrightarrow> Next cd fs di = (Inl EndOfChain, di)"
  by (simp add: Next_def)

lemma Next_step:
  "\<not> endOfChain di \<Longrightarrow>
   Next cd fs di =
     (GetBlock cd (storage di) (currentBlockNumber di + 1) fs,
      di\<lparr>currentBlockNumber := currentBlockNumber di + 1,
         endOfChain := isNotExist (GetBlock cd (storage di) (currentBlockNumber di + 1) fs)\<rparr>)"
  by (simp add: Next_def Let_def)

lemma GetBlock_absent:
  "files fs (getPath d n) = None \<Longrightarrow> open_fault fs (getPath d n) = None \<Longrightarrow>
   GetBlock cd d n fs = Inl (PathError ''open'' (getPath d n) ENOENT)"
  by (simp add: GetBlock_def os_OpenFile_rdonly_def)

lemma GetBlock_present:
  "files fs (getPath d n) = Some c \<Longrightarrow> open_fault fs (getPath d n) = None \<Longrightarrow>
   GetBlock cd d n fs =
     (case decodeStream cd c of Inl msg \<Rightarrow> Inl (DecodeError msg) | Inr b \<Rightarrow> Inr b)"
  by (simp add: GetBlock_def os_OpenFile_rdonly_def)

text \<open>
  C4. \<^verbatim>\<open>Next\<close> on a latched iterator fails with the end-of-chain error, whatever the
  store holds, and leaves the iterator as it is. Otherwise it adds one to the current
  number (a \<^verbatim>\<open>uint64\<close>), returns the result of \<^verbatim>\<open>GetBlock\<close> at that number, and latches
  exactly when that result is a not-exist error. When the record file is absent the
  call returns the not-exist error and latches, and the call after it returns end of
  chain on any store; a decode failure is returned without latching.
\<close>

theorem Next_contract:
  "(endOfChain di \<longrightarrow> Next cd fs di = (Inl EndOfChain, di))
   \<and> (\<not> endOfChain di \<longrightarrow>
        fst (Next cd fs di) = GetBlock cd (storage di) (currentBlockNumber di + 1) fs
        \<and> currentBlockNumber (snd (Next cd fs di)) = currentBlockNumber di + 1
        \<and> storage (snd (Next cd fs di)) = storage di
        \<and> endOfChain (snd (Next cd fs di))
            = isNotExist (GetBlock cd (storage di) (currentBlockNumber di + 1) fs))
   \<and> (\<not> endOfChain di
        \<and> files fs (getPath (storage di) (currentBlockNumber di + 1)) = None
        \<and> open_fault fs (getPath (storage di) (currentBlockNumber di + 1)) = None \<longrightarrow>
        fst (Next cd fs di)
          = Inl (PathError ''open'' (getPath (storage di) (currentBlockNumber di + 1)) ENOENT)
        \<and> endOfChain (snd (Next cd fs di))
        \<and> fst (Next cd fs' (snd (Next cd fs di))) = Inl EndOfChain)
   \<and> (\<not> endOfChain di
        \<and> files fs (getPath (storage di) (currentBlockNumber di + 1)) = Some c
        \<and> open_fault fs (getPath (storage di) (currentBlockNumber di + 1)) = None
        \<and> decodeStream cd c = Inl msg \<longrightarrow>
        fst (Next cd fs di) = Inl (DecodeError msg)
        \<and> \<not> endOfChain (snd (Next cd fs di)))"
proof (intro conjI impI)
  assume "endOfChain di"
  then show "Next cd fs di = (Inl EndOfChain, di)" by (rule Next_done)
next
  assume a: "\<not> endOfChain di"
  show "fst (Next cd fs di) = GetBlock cd (storage di) (currentBlockNumber di + 1) fs"
    and "currentBlockNumber (snd (Next cd fs di)) = currentBlockNumber di + 1"
    and "storage (snd (Next cd fs di)) = storage di"
    and "endOfChain (snd (Next cd fs di))
           = isNotExist (GetBlock cd (storage di) (currentBlockNumber di + 1) fs)"
    by (simp_all add: Next_step [OF a])
next
  assume a: "\<not> endOfChain di
        \<and> files fs (getPath (storage di) (currentBlockNumber di + 1)) = None
        \<and> open_fault fs (getPath (storage di) (currentBlockNumber di + 1)) = None"
  then have g: "GetBlock cd (storage di) (currentBlockNumber di + 1) fs
          = Inl (PathError ''open'' (getPath (storage di) (currentBlockNumber di + 1)) ENOENT)"
    by (simp add: GetBlock_absent)
  from a have n: "\<not> endOfChain di" by simp
  show "fst (Next cd fs di)
          = Inl (PathError ''open'' (getPath (storage di) (currentBlockNumber di + 1)) ENOENT)"
    and l: "endOfChain (snd (Next cd fs di))"
    by (simp_all add: Next_step [OF n] g)
  show "fst (Next cd fs' (snd (Next cd fs di))) = Inl EndOfChain"
    by (simp add: Next_done [OF l])
next
  assume a: "\<not> endOfChain di
        \<and> files fs (getPath (storage di) (currentBlockNumber di + 1)) = Some c
        \<and> open_fault fs (getPath (storage di) (currentBlockNumber di + 1)) = None
        \<and> decodeStream cd c = Inl msg"
  then have g: "GetBlock cd (storage di) (currentBlockNumber di + 1) fs = Inl (DecodeError msg)"
    by (simp add: GetBlock_present)
  from a have n: "\<not> endOfChain di" by simp
  show "fst (Next cd fs di) = Inl (DecodeError msg)"
    and "\<not> endOfChain (snd (Next cd fs di))"
    by (simp_all add: Next_step [OF n] g)
qed

theorem Next_contract_witness:
  "Next (brace_codec :: (string, unit) codec) (fs_of [])
        \<lparr>storage = zblock, currentBlockNumber = 3, endOfChain = True\<rparr>
     = (Inl EndOfChain, \<lparr>storage = zblock, currentBlockNumber = 3, endOfChain = True\<rparr>)
   \<and> fst (Next (brace_codec :: (string, unit) codec) (fs_of []) (ForEach zblock))
       = Inl (PathError ''open'' ''zblock/1.json'' ENOENT)
   \<and> currentBlockNumber
        (snd (Next (brace_codec :: (string, unit) codec) (fs_of []) (ForEach zblock))) = 1
   \<and> endOfChain (snd (Next (brace_codec :: (string, unit) codec) (fs_of []) (ForEach zblock)))
   \<and> fst (Next (brace_codec :: (string, unit) codec) (fs_of [])
             (snd (Next (brace_codec :: (string, unit) codec) (fs_of []) (ForEach zblock))))
       = Inl EndOfChain
   \<and> fst (Next (brace_codec :: (string, unit) codec) (fs_of [(''zblock/1.json'', ''1:g'')])
             (ForEach zblock))
       = Inl (DecodeError ''invalid character'')
   \<and> \<not> endOfChain (snd (Next (brace_codec :: (string, unit) codec)
                          (fs_of [(''zblock/1.json'', ''1:g'')]) (ForEach zblock)))"
  using
    Next_contract [of "\<lparr>storage = zblock, currentBlockNumber = 3, endOfChain = True\<rparr>"
      "brace_codec :: (string, unit) codec" "fs_of []"]
    Next_contract [of "ForEach zblock" "brace_codec :: (string, unit) codec" "fs_of []" "fs_of []"]
    Next_contract [of "ForEach zblock" "brace_codec :: (string, unit) codec"
      "fs_of [(''zblock/1.json'', ''1:g'')]" _ "''1:g''" "''invalid character''"]
  by (simp add: ForEach_def fs_of_def getPath_zblock_digit brace_codec_def brace_decode_def
      in_text_def GetBlock_def os_OpenFile_rdonly_def)

lemma Nexts_Suc:
  "Nexts cd fs (Suc n) di =
     (fst (Next cd fs di) # fst (Nexts cd fs n (snd (Next cd fs di))),
      snd (Nexts cd fs n (snd (Next cd fs di))))"
  by (simp split: prod.splits)

lemma Nexts_add:
  "Nexts cd fs (m + n) di =
     (fst (Nexts cd fs m di) @ fst (Nexts cd fs n (snd (Nexts cd fs m di))),
      snd (Nexts cd fs n (snd (Nexts cd fs m di))))"
  by (induction m arbitrary: di) (simp_all add: Nexts_Suc del: Nexts.simps(2))

lemma Nexts_length: "length (fst (Nexts cd fs k di)) = k"
  by (induction k arbitrary: di) (simp_all add: Nexts_Suc del: Nexts.simps(2))

lemma Nexts_done: "endOfChain di \<Longrightarrow> Nexts cd fs m di = (replicate m (Inl EndOfChain), di)"
  by (induction m) (simp_all add: Nexts_Suc Next_done del: Nexts.simps(2))

lemma Nexts_stored:
  "stored_from cd d fs (currentBlockNumber di + 1) bs \<Longrightarrow> \<not> endOfChain di \<Longrightarrow> storage di = d \<Longrightarrow>
   fst (Nexts cd fs (length bs) di) = map Inr bs
   \<and> currentBlockNumber (snd (Nexts cd fs (length bs) di))
       = currentBlockNumber di + of_nat (length bs)
   \<and> \<not> endOfChain (snd (Nexts cd fs (length bs) di))
   \<and> storage (snd (Nexts cd fs (length bs) di)) = d"
proof (induction bs arbitrary: di)
  case Nil
  then show ?case by simp
next
  case (Cons b bs)
  let ?n = "currentBlockNumber di + 1"
  from Cons.prems(1) obtain c where
    c: "files fs (getPath d ?n) = Some c" "decodeStream cd c = Inr b"
    and o: "open_fault fs (getPath d ?n) = None"
    and rest: "stored_from cd d fs (?n + 1) bs"
    by (auto split: option.splits)
  have g: "GetBlock cd d ?n fs = Inr b"
    using c o by (simp add: GetBlock_present)
  define di1 where "di1 = snd (Next cd fs di)"
  have nx: "Next cd fs di = (Inr b, di1)"
    by (simp add: di1_def Next_step [OF Cons.prems(2)] Cons.prems(3) g)
  have p: "currentBlockNumber di1 = ?n" "\<not> endOfChain di1" "storage di1 = d"
    by (simp_all add: di1_def Next_step [OF Cons.prems(2)] Cons.prems(3) g)
  have ih: "fst (Nexts cd fs (length bs) di1) = map Inr bs
   \<and> currentBlockNumber (snd (Nexts cd fs (length bs) di1))
       = currentBlockNumber di1 + of_nat (length bs)
   \<and> \<not> endOfChain (snd (Nexts cd fs (length bs) di1))
   \<and> storage (snd (Nexts cd fs (length bs) di1)) = d"
    using Cons.IH [of di1] rest p by simp
  obtain rs di2 where r: "Nexts cd fs (length bs) di1 = (rs, di2)"
    by (cases "Nexts cd fs (length bs) di1")
  show ?case
    using ih p by (simp add: nx r add.assoc)
qed

lemma stored_from_end:
  "stored_from cd d fs n bs \<Longrightarrow>
   files fs (getPath d (n + of_nat (length bs))) = None
   \<and> open_fault fs (getPath d (n + of_nat (length bs))) = None"
proof (induction bs arbitrary: n)
  case Nil
  then show ?case by simp
next
  case (Cons b bs)
  then have "stored_from cd d fs (n + 1) bs" by simp
  from Cons.IH [OF this] show ?case by (simp add: add.assoc)
qed

lemma stored_from_numbers:
  "stored_from cd d fs n bs \<Longrightarrow> k < length bs \<Longrightarrow> Number (Header (bs ! k)) = n + of_nat k"
proof (induction bs arbitrary: n k)
  case Nil
  then show ?case by simp
next
  case (Cons b bs)
  show ?case
  proof (cases k)
    case 0
    with Cons.prems show ?thesis by simp
  next
    case (Suc j)
    with Cons.prems have "Number (Header (bs ! j)) = (n + 1) + of_nat j"
      using Cons.IH [of "n + 1" j] by simp
    with Suc show ?thesis by (simp add: add.assoc)
  qed
qed

lemma take_pad: "take m (x # replicate (n + m) x) = replicate m x"
proof -
  have "take m (replicate (Suc (n + m)) x) = replicate m x"
    by (simp only: take_replicate) simp
  then show ?thesis by simp
qed

text \<open>
  C5 (amended). On a store that holds the blocks \<open>bs\<close> as the records 1 to N and no
  record N + 1, a fresh iterator from \<^verbatim>\<open>ForEach\<close> returns, over any k successive calls
  of \<^verbatim>\<open>Next\<close>, the first k of: the N blocks in the order of their records, then the
  not-exist error of the probe for record N + 1, then end of chain for ever.
  \<^verbatim>\<open>Done\<close> is false after each of the first N calls and true after every later one. The
  blocks carry the numbers 1 to N in this order. (The claim has end of chain already as
  the result of call N + 1.)
\<close>

theorem ForEach_replay:
  assumes st: "stored_from cd d fs 1 bs"
  shows "(\<forall>k. fst (Nexts cd fs k (ForEach d))
               = take k (map Inr bs
                   @ Inl (PathError ''open'' (getPath d (of_nat (length bs) + 1)) ENOENT)
                   # replicate k (Inl EndOfChain)))
         \<and> (\<forall>k. Done (snd (Nexts cd fs k (ForEach d))) = (length bs < k))
         \<and> (\<forall>k<length bs. Number (Header (bs ! k)) = of_nat k + 1)"
proof (intro conjI allI impI)
  let ?N = "length bs"
  let ?e = "Inl (PathError ''open'' (getPath d (of_nat ?N + 1)) ENOENT)
              :: disk_error + ('a, 'b) BlockData"
  define diN where "diN = snd (Nexts cd fs ?N (ForEach d))"
  define diL where "diL = snd (Next cd fs diN)"
  have A: "fst (Nexts cd fs ?N (ForEach d)) = map Inr bs"
    "currentBlockNumber diN = of_nat ?N" "\<not> endOfChain diN" "storage diN = d"
    using Nexts_stored [of cd d fs "ForEach d" bs] st
    by (simp_all add: ForEach_def diN_def)
  have absent: "files fs (getPath d (of_nat ?N + 1)) = None"
    "open_fault fs (getPath d (of_nat ?N + 1)) = None"
    using stored_from_end [OF st] by (simp_all add: add.commute)
  have B: "Next cd fs diN = (?e, diL)" "endOfChain diL"
    using absent A(2,3,4)
    by (simp_all add: diL_def Next_step [OF A(3)] GetBlock_absent)
  have C: "\<And>m. Nexts cd fs m diL = (replicate m (Inl EndOfChain), diL)"
    by (rule Nexts_done [OF B(2)])
  have mono: "\<And>m di. endOfChain di \<Longrightarrow> endOfChain (snd (Nexts cd fs m di))"
    by (simp add: Nexts_done)
  have long: "Nexts cd fs (?N + Suc m) (ForEach d)
                 = (map Inr bs @ ?e # replicate m (Inl EndOfChain), diL)" for m
  proof -
    have "Nexts cd fs (Suc m) diN = (?e # replicate m (Inl EndOfChain), diL)"
      by (simp add: Nexts_Suc B(1) C del: Nexts.simps(2))
    then show ?thesis
      by (simp only: Nexts_add [of cd fs ?N "Suc m"] A(1) diN_def [symmetric] fst_conv snd_conv)
  qed
  have short: "\<And>k. k \<le> ?N \<Longrightarrow> fst (Nexts cd fs k (ForEach d)) = take k (map Inr bs)
                      \<and> \<not> endOfChain (snd (Nexts cd fs k (ForEach d)))"
  proof -
    fix k assume k: "k \<le> ?N"
    then have split: "?N = k + (?N - k)" by simp
    have eq: "Nexts cd fs ?N (ForEach d) =
       (fst (Nexts cd fs k (ForEach d))
          @ fst (Nexts cd fs (?N - k) (snd (Nexts cd fs k (ForEach d)))),
        snd (Nexts cd fs (?N - k) (snd (Nexts cd fs k (ForEach d)))))"
      using Nexts_add [of cd fs k "?N - k" "ForEach d"] k by simp
    have "take k (fst (Nexts cd fs ?N (ForEach d))) = fst (Nexts cd fs k (ForEach d))"
      by (subst eq) (simp add: Nexts_length)
    then have 1: "fst (Nexts cd fs k (ForEach d)) = take k (map Inr bs)"
      using A(1) by simp
    have 2: "\<not> endOfChain (snd (Nexts cd fs k (ForEach d)))"
    proof
      assume "endOfChain (snd (Nexts cd fs k (ForEach d)))"
      then have "endOfChain (snd (Nexts cd fs (?N - k) (snd (Nexts cd fs k (ForEach d)))))"
        by (rule mono)
      then have "endOfChain diN" unfolding diN_def by (subst eq) simp
      with A(3) show False by simp
    qed
    from 1 2 show "fst (Nexts cd fs k (ForEach d)) = take k (map Inr bs)
                      \<and> \<not> endOfChain (snd (Nexts cd fs k (ForEach d)))" by simp
  qed
  {
    fix k
    show "fst (Nexts cd fs k (ForEach d))
               = take k (map Inr bs @ ?e # replicate k (Inl EndOfChain))"
    proof (cases "k \<le> ?N")
      case True
      then show ?thesis using short [OF True] by simp
    next
      case False
      then obtain m where m: "k = ?N + Suc m"
        by (metis add_Suc_right less_imp_Suc_add not_le)
      have R: "Nexts cd fs k (ForEach d)
                 = (map Inr bs @ ?e # replicate m (Inl EndOfChain), diL)"
        unfolding m by (rule long)
      show ?thesis unfolding R by (simp add: m take_pad)
    qed
    show "Done (snd (Nexts cd fs k (ForEach d))) = (length bs < k)"
    proof (cases "k \<le> ?N")
      case True
      then show ?thesis using short [OF True] by (simp add: Done_def)
    next
      case False
      then obtain m where m: "k = ?N + Suc m"
        by (metis add_Suc_right less_imp_Suc_add not_le)
      have R: "Nexts cd fs k (ForEach d)
                 = (map Inr bs @ ?e # replicate m (Inl EndOfChain), diL)"
        unfolding m by (rule long)
      show ?thesis unfolding R using B(2) by (simp add: m Done_def)
    qed
  }
  fix k assume "k < length bs"
  then show "Number (Header (bs ! k)) = of_nat k + 1"
    using stored_from_numbers [OF st] by (simp add: add.commute)
qed


lemma two_blocks_stored:
  "stored_from (brace_codec :: (string, unit) codec) zblock two_blocks 1
     [blockN 1 ''a'', blockN 2 ''b'']"
  by (simp add: two_blocks_def fs_of_def getPath_zblock_digit brace_codec_def brace_decode_def
      is_digit_def in_text_def blockN_def)

theorem ForEach_replay_witness:
  "stored_from (brace_codec :: (string, unit) codec) zblock two_blocks 1
     [blockN 1 ''a'', blockN 2 ''b'']
   \<and> fst (Nexts (brace_codec :: (string, unit) codec) two_blocks 4 (ForEach zblock))
       = [Inr (blockN 1 ''a''), Inr (blockN 2 ''b''),
          Inl (PathError ''open'' ''zblock/3.json'' ENOENT), Inl EndOfChain]
   \<and> \<not> Done (snd (Nexts (brace_codec :: (string, unit) codec) two_blocks 2 (ForEach zblock)))
   \<and> Done (snd (Nexts (brace_codec :: (string, unit) codec) two_blocks 3 (ForEach zblock)))
   \<and> Number (Header (blockN 2 ''b'' :: (string, unit) BlockData)) = 2"
proof -
  note r = ForEach_replay [OF two_blocks_stored]
  let ?pad = "map Inr [blockN 1 ''a'', blockN 2 ''b'' :: (string, unit) BlockData]
                @ Inl (PathError ''open''
                        (getPath zblock
                           (of_nat (length [blockN 1 ''a'', blockN 2 ''b'' :: (string, unit) BlockData]) + 1))
                        ENOENT)
                # replicate 4 (Inl EndOfChain)"
  from r have "fst (Nexts (brace_codec :: (string, unit) codec) two_blocks 4 (ForEach zblock))
       = take 4 ?pad"
    by blast
  also have "take 4 ?pad
       = [Inr (blockN 1 ''a''), Inr (blockN 2 ''b''),
          Inl (PathError ''open'' ''zblock/3.json'' ENOENT), Inl EndOfChain]"
    by (simp add: getPath_zblock_digit)
  finally have 1: "fst (Nexts (brace_codec :: (string, unit) codec) two_blocks 4 (ForEach zblock))
       = [Inr (blockN 1 ''a''), Inr (blockN 2 ''b''),
          Inl (PathError ''open'' ''zblock/3.json'' ENOENT), Inl EndOfChain]" .
  from r have d: "\<And>k. Done (snd (Nexts (brace_codec :: (string, unit) codec) two_blocks k
                                   (ForEach zblock)))
                     = (length [blockN 1 ''a'', blockN 2 ''b'' :: (string, unit) BlockData] < k)"
    by blast
  have 2: "\<not> Done (snd (Nexts (brace_codec :: (string, unit) codec) two_blocks 2 (ForEach zblock)))"
    "Done (snd (Nexts (brace_codec :: (string, unit) codec) two_blocks 3 (ForEach zblock)))"
    by (simp_all only: d) simp_all
  have 3: "Number (Header (blockN 2 ''b'' :: (string, unit) BlockData)) = 2"
    by (simp add: blockN_def)
  from 1 2 3 two_blocks_stored show ?thesis by (simp only: simp_thms)
qed

text \<open>
  C5 as stated fails: on a store that holds exactly block 1, the first call returns the
  block and the call after it does not return end of chain (it returns the not-exist
  error of the probe for record 2).
\<close>

theorem ForEach_after_last_counterexample:
  "stored_from (brace_codec :: (string, unit) codec) zblock
     (fs_of [(''zblock/1.json'', ''{1:a}'')]) 1 [blockN 1 ''a'']
   \<and> fst (Nexts (brace_codec :: (string, unit) codec)
            (fs_of [(''zblock/1.json'', ''{1:a}'')]) 1 (ForEach zblock))
       = [Inr (blockN 1 ''a'')]
   \<and> fst (Next (brace_codec :: (string, unit) codec) (fs_of [(''zblock/1.json'', ''{1:a}'')])
            (snd (Nexts (brace_codec :: (string, unit) codec)
                    (fs_of [(''zblock/1.json'', ''{1:a}'')]) 1 (ForEach zblock))))
       \<noteq> Inl EndOfChain"
  by (simp add: fs_of_def getPath_zblock_digit brace_codec_def brace_decode_def
      is_digit_def in_text_def blockN_def Next_def GetBlock_def os_OpenFile_rdonly_def
      ForEach_def Let_def)


section \<open>Properties of the transaction model\<close>

text \<open>
  C6 (amended). \<^verbatim>\<open>Validate\<close> is a function of the transaction, the expected chain id
  and the collaborators alone, and returns the error of the first check that fails, in
  this order: (1) chain id, (2) sender well-formed, (3) receiver well-formed, (4)
  sender and receiver differ, (5) the signature is structurally valid, else the
  verifier's error, (6) the signer is recovered, else the error of the recovery, and
  equals the sender, else the signer mismatch. It succeeds exactly when all six pass.
  It differs from the six checks as the specification lists them only in that a failed
  recovery is reported with the recovery's own error and not as a signer mismatch.
\<close>

theorem Validate_first_failed_check:
  "Validate x tx chainID = first_failure (checks x tx chainID)
   \<and> (Validate x tx chainID = None) =
       (ChainID tx = chainID \<and> IsAccountID x (FromID tx) \<and> IsAccountID x (ToID tx)
        \<and> FromID tx \<noteq> ToID tx \<and> sig_VerifySignature x (V tx) (R tx) (S tx) = None
        \<and> sig_FromAddress x (Tx.truncate tx) (V tx) (R tx) (S tx) = Inr (FromID tx))
   \<and> first_failure (six_checks x tx chainID) =
       (case Validate x tx chainID of
          Some (RecoverError err) \<Rightarrow> Some AddressMismatch
        | r \<Rightarrow> r)"
proof (intro conjI)
  show "Validate x tx chainID = first_failure (checks x tx chainID)"
    by (simp add: Validate_def checks_def split: option.splits sum.splits)
  show "(Validate x tx chainID = None) =
       (ChainID tx = chainID \<and> IsAccountID x (FromID tx) \<and> IsAccountID x (ToID tx)
        \<and> FromID tx \<noteq> ToID tx \<and> sig_VerifySignature x (V tx) (R tx) (S tx) = None
        \<and> sig_FromAddress x (Tx.truncate tx) (V tx) (R tx) (S tx) = Inr (FromID tx))"
    by (auto simp: Validate_def split: option.splits sum.splits)
  show "first_failure (six_checks x tx chainID) =
       (case Validate x tx chainID of
          Some (RecoverError err) \<Rightarrow> Some AddressMismatch
        | r \<Rightarrow> r)"
    by (auto simp: Validate_def six_checks_def split: option.splits sum.splits)
qed

theorem Validate_first_failed_check_witness:
  "Validate plain_externals (signed (transfer 1 ''0xA'' ''0xB'' 1 0) 29 1 1) 1 = None
   \<and> first_failure (checks plain_externals (signed (transfer 1 ''0xA'' ''0xB'' 1 0) 29 1 1) 1) = None
   \<and> Validate plain_externals (signed (transfer 1 ''0xA'' ''0xB'' 1 0) 31 1 1) 1
       = Some (VerifyError ''invalid recovery id'')
   \<and> Validate plain_externals (signed (transfer 1 ''0xA'' ''B'' 1 0) 31 1 1) 1
       = Some ToNotFormatted"
  using Validate_first_failed_check [of plain_externals "signed (transfer 1 ''0xA'' ''0xB'' 1 0) 29 1 1" 1]
    Validate_first_failed_check [of plain_externals "signed (transfer 1 ''0xA'' ''0xB'' 1 0) 31 1 1" 1]
    Validate_first_failed_check [of plain_externals "signed (transfer 1 ''0xA'' ''B'' 1 0) 31 1 1" 1]
  by (simp add: checks_def plain_externals_def signed_def transfer_def Tx.extend_def
      SignedTx.fields_def Tx.truncate_def)

text \<open>
  C6 as stated fails: for a transaction that passes the first five checks and whose
  signer cannot be recovered, \<^verbatim>\<open>Validate\<close> returns the error of the recovery, where
  the six checks of the claim give the signer mismatch.
\<close>

theorem Validate_recovery_failure_counterexample:
  "Validate plain_externals (signed (transfer 1 ''0xA'' ''0xB'' 1 0) 29 0 1) 1
     = Some (RecoverError ''recovery failed'')
   \<and> first_failure (six_checks plain_externals (signed (transfer 1 ''0xA'' ''0xB'' 1 0) 29 0 1) 1)
     = Some AddressMismatch"
  by (simp add: Validate_def six_checks_def plain_externals_def signed_def transfer_def
      Tx.extend_def SignedTx.fields_def Tx.truncate_def)

text \<open>
  C7 (amended). For a well-formed account \<open>a\<close>: \<^verbatim>\<open>NewTx\<close> builds the transaction from
  \<open>a\<close> to \<open>a\<close>; \<^verbatim>\<open>Sign\<close> wraps whatever triple the signer returns, whoever the
  parties are; and \<^verbatim>\<open>Validate\<close> of any signed transaction from \<open>a\<close> to \<open>a\<close>, against
  the chain id the transaction carries, fails with the payment-to-oneself error.
\<close>

theorem self_payment_rejected_by_Validate:
  assumes "IsAccountID x a"
  shows "NewTx x c n a a val tip dat
           = Inr \<lparr>ChainID = c, Nonce = n, FromID = a, ToID = a, Value = val, Tip = tip,
                   Data = dat\<rparr>
         \<and> (\<forall>tx k v r s. sig_Sign x tx k = Inr (v, r, s) \<longrightarrow>
               Sign x tx k = Inr (Tx.extend tx (SignedTx.fields v r s)))
         \<and> (\<forall>stx. FromID stx = a \<and> ToID stx = a \<longrightarrow>
               Validate x stx (ChainID stx) = Some (SendToSelf a a))"
  using assms by (simp add: NewTx_def Sign_def Validate_def)

theorem self_payment_rejected_by_Validate_witness:
  "NewTx plain_externals 1 5 ''0xA'' ''0xA'' 10 2 [] = Inr (transfer 1 ''0xA'' ''0xA'' 5 2)
   \<and> Sign plain_externals (transfer 1 ''0xA'' ''0xA'' 5 2) ()
       = Inr (signed (transfer 1 ''0xA'' ''0xA'' 5 2) 29 1 1)
   \<and> Validate plain_externals (signed (transfer 1 ''0xA'' ''0xA'' 5 2) 29 1 1) 1
       = Some (SendToSelf ''0xA'' ''0xA'')"
proof -
  have w: "IsAccountID plain_externals ''0xA''"
    by (simp add: plain_externals_def)
  note t = self_payment_rejected_by_Validate [OF w]
  have 1: "NewTx plain_externals 1 5 ''0xA'' ''0xA'' 10 2 [] = Inr (transfer 1 ''0xA'' ''0xA'' 5 2)"
    using t [of 1 5 10 2 "[]"] by (simp add: transfer_def)
  have s: "sig_Sign plain_externals (transfer 1 ''0xA'' ''0xA'' 5 2) () = Inr (Some 29, Some 1, Some 1)"
    by (simp add: plain_externals_def)
  have 2: "Sign plain_externals (transfer 1 ''0xA'' ''0xA'' 5 2) ()
       = Inr (signed (transfer 1 ''0xA'' ''0xA'' 5 2) 29 1 1)"
    using t s by (simp add: signed_def)
  have 3: "Validate plain_externals (signed (transfer 1 ''0xA'' ''0xA'' 5 2) 29 1 1) 1
       = Some (SendToSelf ''0xA'' ''0xA'')"
    using t [THEN conjunct2, THEN conjunct2, THEN spec,
        of "signed (transfer 1 ''0xA'' ''0xA'' 5 2) 29 1 1"]
    by (simp add: signed_def transfer_def Tx.extend_def SignedTx.fields_def)
  from 1 2 3 show ?thesis by simp
qed

text \<open>
  C7 as stated fails: a signed transaction from a well-formed account to itself,
  validated against another chain id, fails with the chain-id error, not with the
  payment-to-oneself error.
\<close>

theorem self_payment_other_chain_counterexample:
  "IsAccountID plain_externals ''0xA''
   \<and> FromID (signed (transfer 1 ''0xA'' ''0xA'' 5 2) 29 1 1)
       = ToID (signed (transfer 1 ''0xA'' ''0xA'' 5 2) 29 1 1)
   \<and> Validate plain_externals (signed (transfer 1 ''0xA'' ''0xA'' 5 2) 29 1 1) 2
       = Some (InvalidChainID 1 2)"
  by (simp add: Validate_def plain_externals_def signed_def transfer_def
      Tx.extend_def SignedTx.fields_def)


section \<open>Properties of the selection framework\<close>

lemma run_byTip_Swap_panics:
  "calls_Swap p b \<Longrightarrow> run_byTip p b = Inl (Panic ''implement me'')"
  by (induction p) (auto simp: byTip_Swap_def split: sum.splits)

text \<open>
  C8. \<^verbatim>\<open>byTip.Swap\<close> panics with "implement me" on every slice and all indices, and
  every run of a sorting algorithm on a \<^verbatim>\<open>byTip\<close> value that comes to a call of
  \<^verbatim>\<open>Swap\<close> ends in that panic.
\<close>

theorem byTip_Swap_panics:
  "byTip_Swap b i j = Inl (Panic ''implement me'')
   \<and> (calls_Swap p b \<longrightarrow> run_byTip p b = Inl (Panic ''implement me''))"
  by (simp add: byTip_Swap_def run_byTip_Swap_panics)

theorem byTip_Swap_panics_witness:
  "byTip_Less two_tips 1 0 = Inr True
   \<and> calls_Swap insertion_sort2 two_tips
   \<and> run_byTip insertion_sort2 two_tips = Inl (Panic ''implement me'')"
proof -
  have l: "byTip_Less two_tips 1 0 = Inr True"
    by (simp add: byTip_Less_def index_def two_tips_def signed_def transfer_def
        Tx.extend_def SignedTx.fields_def)
  have c: "calls_Swap insertion_sort2 two_tips"
    by (simp add: insertion_sort2_def byTip_Len_def l) (simp add: two_tips_def)
  from byTip_Swap_panics [of two_tips 1 0 insertion_sort2] c l show ?thesis by simp
qed

lemma ascii_names:
  "list_all (\<lambda>c. (of_char c :: nat) < 128) ''tip''"
  "list_all (\<lambda>c. (of_char c :: nat) < 128) ''TIP''"
  "list_all (\<lambda>c. (of_char c :: nat) < 128) ''Tip''"
  "list_all (\<lambda>c. (of_char c :: nat) < 128) ''tIp''"
  "list_all (\<lambda>c. (of_char c :: nat) < 128) ''top''"
  "list_all (\<lambda>c. (of_char c :: nat) < 128) ''tip_advanced''"
  "list_all (\<lambda>c. (of_char c :: nat) < 128) ''TIP_ADVANCED''"
  "list_all (\<lambda>c. (of_char c :: nat) < 128) ''Tip_Advanced''"
  by simp_all

lemma lower_names:
  "lowerASCII (CHR ''T'') = CHR ''t''"
  "lowerASCII (CHR ''I'') = CHR ''i''"
  "lowerASCII (CHR ''P'') = CHR ''p''"
  "lowerASCII (CHR ''A'') = CHR ''a''"
  "lowerASCII (CHR ''D'') = CHR ''d''"
  "lowerASCII (CHR ''V'') = CHR ''v''"
  "lowerASCII (CHR ''N'') = CHR ''n''"
  "lowerASCII (CHR ''C'') = CHR ''c''"
  "lowerASCII (CHR ''E'') = CHR ''e''"
  "lowerASCII (CHR ''t'') = CHR ''t''"
  "lowerASCII (CHR ''i'') = CHR ''i''"
  "lowerASCII (CHR ''p'') = CHR ''p''"
  "lowerASCII (CHR ''o'') = CHR ''o''"
  "lowerASCII (CHR ''_'') = CHR ''_''"
  "lowerASCII (CHR ''a'') = CHR ''a''"
  "lowerASCII (CHR ''d'') = CHR ''d''"
  "lowerASCII (CHR ''v'') = CHR ''v''"
  "lowerASCII (CHR ''n'') = CHR ''n''"
  "lowerASCII (CHR ''c'') = CHR ''c''"
  "lowerASCII (CHR ''e'') = CHR ''e''"
  by code_simp+

lemma Retrieve_eq:
  "Retrieve U tipSelect strategy =
     (if strings_ToLower U strategy = ''tip'' then Inr tipSelect
      else Inl (StrategyNotExist strategy))"
  by (simp add: Retrieve_def strategies_def StrategyTip_def)

text \<open>
  C9. \<^verbatim>\<open>Retrieve\<close> looks the lowered name up: it returns the tip selection function
  for every name whose lowercase form is "tip" (so for "tip", "TIP" and "Tip"), and the
  error naming the strategy for every other name. It is a function of the name and the
  registry alone, and the registry is never written.
\<close>

theorem Retrieve_case_insensitive:
  "Retrieve U tipSelect strategy =
     (if strings_ToLower U strategy = ''tip'' then Inr tipSelect
      else Inl (StrategyNotExist strategy))
   \<and> Retrieve U tipSelect ''tip'' = Inr tipSelect
   \<and> Retrieve U tipSelect ''TIP'' = Inr tipSelect
   \<and> Retrieve U tipSelect ''Tip'' = Inr tipSelect"
  by (simp add: Retrieve_eq strings_ToLower_def ascii_names lower_names)

theorem Retrieve_case_insensitive_witness:
  "Retrieve id (0::nat) ''tIp'' = Inr 0
   \<and> Retrieve id (0::nat) ''top'' = Inl (StrategyNotExist ''top'')"
  using Retrieve_case_insensitive [of id "0::nat" "''tIp''"]
    Retrieve_case_insensitive [of id "0::nat" "''top''"]
  by (simp add: strings_ToLower_def ascii_names lower_names)

text \<open>
  C10. The registry has the one entry "tip"; no strategy is registered under
  \<^verbatim>\<open>StrategyTipAdvanced\<close>, and \<^verbatim>\<open>Retrieve\<close> returns the error for every name whose
  lowercase form is "tip_advanced".
\<close>

theorem Retrieve_tip_advanced_unregistered:
  "dom (strategies tipSelect) = {StrategyTip}
   \<and> StrategyTipAdvanced \<notin> dom (strategies tipSelect)
   \<and> (strings_ToLower U strategy = StrategyTipAdvanced \<longrightarrow>
        Retrieve U tipSelect strategy = Inl (StrategyNotExist strategy))
   \<and> Retrieve U tipSelect ''tip_advanced'' = Inl (StrategyNotExist ''tip_advanced'')
   \<and> Retrieve U tipSelect ''TIP_ADVANCED'' = Inl (StrategyNotExist ''TIP_ADVANCED'')"
  by (simp add: Retrieve_eq strategies_def StrategyTip_def StrategyTipAdvanced_def
      strings_ToLower_def ascii_names lower_names)

theorem Retrieve_tip_advanced_unregistered_witness:
  "strings_ToLower id ''Tip_Advanced'' = StrategyTipAdvanced
   \<and> Retrieve id (0::nat) ''Tip_Advanced'' = Inl (StrategyNotExist ''Tip_Advanced'')"
proof -
  have l: "strings_ToLower id ''Tip_Advanced'' = StrategyTipAdvanced"
    by (simp add: strings_ToLower_def ascii_names lower_names StrategyTipAdvanced_def)
  from Retrieve_tip_advanced_unregistered [of "0::nat" id "''Tip_Advanced''"] l
  show ?thesis by simp
qed

end
